theory Spec2Isabelle
  imports Complex_Main
begin

section \<open>JavaScript numbers\<close>

text \<open>
  The vote counters, the threshold and the scores of \<^verbatim>\<open>VoteScoreCalculator\<close>
  (src/components/newsList.js) are JavaScript numbers. They are modelled as exact
  rationals extended with the three special values that the arithmetic of the class can
  produce: a division by zero yields \<open>Infinity\<close>, \<open>MinusInfinity\<close> or \<open>NaN\<close>, never an
  exception. Two things of IEEE 754 are left out: the rounding of every operation to a
  binary double (all arithmetic here is exact) and the negative zero (there is one zero,
  and it behaves as \<open>+0\<close>).
\<close>

datatype jsnum = Num rat | Infinity | MinusInfinity | NaN

fun js_neg :: "jsnum \<Rightarrow> jsnum" where
  "js_neg (Num a) = Num (- a)"
| "js_neg Infinity = MinusInfinity"
| "js_neg MinusInfinity = Infinity"
| "js_neg NaN = NaN"

fun js_add :: "jsnum \<Rightarrow> jsnum \<Rightarrow> jsnum" where
  "js_add NaN y = NaN"
| "js_add x NaN = NaN"
| "js_add (Num a) (Num b) = Num (a + b)"
| "js_add (Num a) y = y"
| "js_add x (Num b) = x"
| "js_add Infinity Infinity = Infinity"
| "js_add MinusInfinity MinusInfinity = MinusInfinity"
| "js_add Infinity MinusInfinity = NaN"
| "js_add MinusInfinity Infinity = NaN"

definition js_sub :: "jsnum \<Rightarrow> jsnum \<Rightarrow> jsnum" where
  "js_sub x y = js_add x (js_neg y)"

text \<open>The product of an infinity with a finite number: \<open>NaN\<close> at zero, else by sign.\<close>

definition inf_times :: "jsnum \<Rightarrow> rat \<Rightarrow> jsnum" where
  "inf_times i a = (if a = 0 then NaN else if 0 < a then i else js_neg i)"

fun js_mul :: "jsnum \<Rightarrow> jsnum \<Rightarrow> jsnum" where
  "js_mul NaN y = NaN"
| "js_mul x NaN = NaN"
| "js_mul (Num a) (Num b) = Num (a * b)"
| "js_mul (Num a) y = inf_times y a"
| "js_mul x (Num b) = inf_times x b"
| "js_mul Infinity y = y"
| "js_mul MinusInfinity y = js_neg y"

fun js_div :: "jsnum \<Rightarrow> jsnum \<Rightarrow> jsnum" where
  "js_div NaN y = NaN"
| "js_div x NaN = NaN"
| "js_div (Num a) (Num b) =
     (if b \<noteq> 0 then Num (a / b)
      else if a = 0 then NaN
      else if 0 < a then Infinity else MinusInfinity)"
| "js_div (Num a) y = Num 0"
| "js_div x (Num b) = (if 0 \<le> b then x else js_neg x)"
| "js_div x y = NaN"

fun js_lt :: "jsnum \<Rightarrow> jsnum \<Rightarrow> bool" where
  "js_lt NaN y = False"
| "js_lt x NaN = False"
| "js_lt (Num a) (Num b) = (a < b)"
| "js_lt x MinusInfinity = False"
| "js_lt Infinity y = False"
| "js_lt MinusInfinity y = True"
| "js_lt (Num a) Infinity = True"

definition js_gt :: "jsnum \<Rightarrow> jsnum \<Rightarrow> bool" where
  "js_gt x y = js_lt y x"

definition js_le :: "jsnum \<Rightarrow> jsnum \<Rightarrow> bool" where
  "js_le x y = (x \<noteq> NaN \<and> y \<noteq> NaN \<and> \<not> js_lt y x)"

definition js_ge :: "jsnum \<Rightarrow> jsnum \<Rightarrow> bool" where
  "js_ge x y = js_le y x"

text \<open>\<^verbatim>\<open>x === y\<close> on numbers: \<open>NaN\<close> is not equal to itself.\<close>

definition js_strict_eq :: "jsnum \<Rightarrow> jsnum \<Rightarrow> bool" where
  "js_strict_eq x y = (x \<noteq> NaN \<and> x = y)"

fun Math_abs :: "jsnum \<Rightarrow> jsnum" where
  "Math_abs (Num a) = Num \<bar>a\<bar>"
| "Math_abs Infinity = Infinity"
| "Math_abs MinusInfinity = Infinity"
| "Math_abs NaN = NaN"

definition Math_min :: "jsnum \<Rightarrow> jsnum \<Rightarrow> jsnum" where
  "Math_min x y = (if x = NaN \<or> y = NaN then NaN else if js_lt y x then y else x)"

text \<open>\<^verbatim>\<open>Math.round\<close> rounds to the nearest integer, a tie towards \<open>+\<infinity>\<close>.\<close>

fun Math_round :: "jsnum \<Rightarrow> jsnum" where
  "Math_round (Num a) = Num (of_int \<lfloor>a + 1 / 2\<rfloor>)"
| "Math_round x = x"

fun Math_floor :: "jsnum \<Rightarrow> jsnum" where
  "Math_floor (Num a) = Num (of_int \<lfloor>a\<rfloor>)"
| "Math_floor x = x"

text \<open>
  Truthiness of a number: \<open>0\<close> and \<open>NaN\<close> are falsy. A property that is absent from an
  object reads as \<^verbatim>\<open>undefined\<close>, which is falsy too; it is \<open>None\<close> here.
  \<open>js_or x d\<close> is \<^verbatim>\<open>x || d\<close>.
\<close>

fun truthy :: "jsnum \<Rightarrow> bool" where
  "truthy (Num a) = (a \<noteq> 0)"
| "truthy NaN = False"
| "truthy x = True"

fun js_or :: "jsnum option \<Rightarrow> jsnum \<Rightarrow> jsnum" where
  "js_or None d = d"
| "js_or (Some v) d = (if truthy v then v else d)"


section \<open>The state of a VoteScoreCalculator\<close>

text \<open>
  An options object or a vote-data object passed in by a caller is a finite map from
  property names to numbers (the numeric properties are the only ones the class reads
  from them, apart from the two callbacks and \<^verbatim>\<open>apiUrl\<close>).
\<close>

type_synonym jsobj = "string \<rightharpoonup> jsnum"

record voteData =
  fakeVotes :: jsnum
  nonFakeVotes :: jsnum
  totalVotes :: jsnum
  invalidVotes :: jsnum
  validVotes :: jsnum

record scoreData =
  fakeScore :: jsnum
  confidence :: jsnum
  status :: string

text \<open>
  The two callbacks \<^verbatim>\<open>onScoreUpdate\<close> and \<^verbatim>\<open>onStatusChange\<close> are observers supplied
  by the caller. Each invocation is recorded, with its arguments, at the end of the
  \<open>events\<close> log of the state; the callbacks themselves are taken to return normally and
  not to touch the calculator. Console output is not part of the state.
\<close>

datatype event =
  ScoreUpdate scoreData
| StatusChange string string

record calculator =
  threshold :: jsnum
  minVotes :: jsnum
  currentNewsId :: "string option"
  voteData :: voteData
  scoreData :: scoreData
  events :: "event list"

definition constructor :: "jsobj \<Rightarrow> calculator" where
  "constructor options =
     \<lparr> threshold = js_or (options ''threshold'') (Num 0.6),
       minVotes = js_or (options ''minVotes'') (Num 5),
       currentNewsId = None,
       voteData = \<lparr> fakeVotes = Num 0, nonFakeVotes = Num 0, totalVotes = Num 0,
                    invalidVotes = Num 0, validVotes = Num 0 \<rparr>,
       scoreData = \<lparr> fakeScore = Num 0, confidence = Num 0, status = ''pending'' \<rparr>,
       events = [] \<rparr>"

definition calculateConfidence :: "calculator \<Rightarrow> jsnum \<Rightarrow> jsnum \<Rightarrow> jsnum" where
  "calculateConfidence s fv nfv =
     (let total = js_add fv nfv in
      if js_strict_eq total (Num 0) then Num 0
      else
        let ratioDifference = js_div (Math_abs (js_sub fv nfv)) total;
            voteCountFactor = Math_min (js_div total (js_mul (minVotes s) (Num 5))) (Num 1);
            conf = js_mul ratioDifference voteCountFactor
        in js_div (Math_round (js_mul conf (Num 100))) (Num 100))"

definition calculateScore :: "calculator \<Rightarrow> calculator" where
  "calculateScore s =
     (let fv = fakeVotes (voteData s);
          nfv = nonFakeVotes (voteData s);
          vv = validVotes (voteData s);
          fscore = (if js_gt vv (Num 0) then js_div fv vv else Num 0);
          conf = calculateConfidence s fv nfv;
          newStatus =
            (if js_lt vv (minVotes s) then ''insufficient''
             else if js_ge fscore (threshold s) then ''fake''
             else ''non-fake'');
          oldStatus = status (scoreData s);
          sd = \<lparr> fakeScore = fscore, confidence = conf, status = newStatus \<rparr>;
          s1 = s\<lparr> scoreData := sd, events := events s @ [ScoreUpdate sd] \<rparr>
      in if newStatus \<noteq> oldStatus
         then s1\<lparr> events := events s1 @ [StatusChange newStatus oldStatus] \<rparr>
         else s1)"

definition updateVoteData :: "string \<Rightarrow> jsobj \<Rightarrow> calculator \<Rightarrow> calculator" where
  "updateVoteData newsId data s =
     calculateScore
       (s\<lparr> currentNewsId := Some newsId,
           voteData :=
             \<lparr> fakeVotes = js_or (data ''fakeVotes'') (Num 0),
               nonFakeVotes = js_or (data ''nonFakeVotes'') (Num 0),
               totalVotes = js_or (data ''totalVotes'') (Num 0),
               invalidVotes = js_or (data ''invalidVotes'') (Num 0),
               validVotes = js_or (data ''validVotes'')
                 (js_add (js_or (data ''fakeVotes'') (Num 0))
                         (js_or (data ''nonFakeVotes'') (Num 0))) \<rparr> \<rparr>)"

definition setThreshold :: "jsnum \<Rightarrow> calculator \<Rightarrow> calculator" where
  "setThreshold t s =
     (if js_ge t (Num 0) \<and> js_le t (Num 1)
      then calculateScore (s\<lparr> threshold := t \<rparr>)
      else s)"

definition setMinVotes :: "jsnum \<Rightarrow> calculator \<Rightarrow> calculator" where
  "setMinVotes m s =
     (if js_ge m (Num 0)
      then calculateScore (s\<lparr> minVotes := m \<rparr>)
      else s)"

definition destroy :: "calculator \<Rightarrow> calculator" where
  "destroy s =
     s\<lparr> currentNewsId := None,
        voteData := \<lparr> fakeVotes = Num 0, nonFakeVotes = Num 0, totalVotes = Num 0,
                      invalidVotes = Num 0, validVotes = Num 0 \<rparr>,
        scoreData := \<lparr> fakeScore = Num 0, confidence = Num 0, status = ''pending'' \<rparr> \<rparr>"

section \<open>Recalculation\<close>

text \<open>
  \<^verbatim>\<open>recalculateScore\<close> is an \<^verbatim>\<open>async\<close> method. The request to the server is
  commented out in the source; what runs is a delay of 800 ms followed by a simulated
  successful response, built from the calculator's own vote data at that moment and two
  calls of \<^verbatim>\<open>Math.random()\<close>. The two random values (each in \<open>[0, 1)\<close>) are the
  arguments \<open>u1\<close> and \<open>u2\<close>. The response also carries \<^verbatim>\<open>newsId\<close> and \<^verbatim>\<open>status\<close>,
  which \<^verbatim>\<open>updateVoteData\<close> does not read.

  Nothing between \<^verbatim>\<open>try\<close> and \<^verbatim>\<open>catch\<close> can throw in this model (there is no
  request that could fail, and the callbacks return normally), so the \<^verbatim>\<open>catch\<close> block,
  which logs and rethrows, is never entered; \<^verbatim>\<open>showLoading\<close> only writes to the
  console.
\<close>

definition mockResult :: "rat \<Rightarrow> rat \<Rightarrow> calculator \<Rightarrow> jsobj" where
  "mockResult u1 u2 s =
     [ ''fakeVotes'' \<mapsto>
         js_add (fakeVotes (voteData s)) (Math_floor (js_mul (Num u1) (Num 3))),
       ''nonFakeVotes'' \<mapsto>
         js_add (nonFakeVotes (voteData s)) (Math_floor (js_mul (Num u2) (Num 2))),
       ''invalidVotes'' \<mapsto> invalidVotes (voteData s) ]"

text \<open>
  The part of \<^verbatim>\<open>recalculateScore\<close> after the \<^verbatim>\<open>await\<close>: it returns the simulated
  response and the updated calculator. The part before the \<^verbatim>\<open>await\<close> changes nothing.
\<close>

definition recalculateScore :: "string \<Rightarrow> rat \<Rightarrow> rat \<Rightarrow> calculator \<Rightarrow> jsobj \<times> calculator" where
  "recalculateScore newsId u1 u2 s =
     (let d = mockResult u1 u2 s in (d, updateVoteData newsId d s))"

text \<open>
  Several calls of \<^verbatim>\<open>recalculateScore\<close> on one calculator. JavaScript runs one task at
  a time: a call runs up to its \<^verbatim>\<open>await\<close> and is then suspended; when its timer fires,
  the rest of the body runs to completion. \<open>Call\<close> starts a call, \<open>Settle i\<close> lets the
  \<open>i\<close>-th suspended call finish. The list \<open>awaiting\<close> holds the calls that have started
  and not finished, \<open>returned\<close> the responses of the finished ones, oldest first.
\<close>

datatype action = Call string rat rat | Settle nat

record loop =
  calc :: calculator
  awaiting :: "(string \<times> rat \<times> rat) list"
  returned :: "jsobj list"

fun perform :: "loop \<Rightarrow> action \<Rightarrow> loop" where
  "perform l (Call newsId u1 u2) = l\<lparr> awaiting := awaiting l @ [(newsId, u1, u2)] \<rparr>"
| "perform l (Settle i) =
     (if i < length (awaiting l) then
        (case awaiting l ! i of (newsId, u1, u2) \<Rightarrow>
           (case recalculateScore newsId u1 u2 (calc l) of (d, s') \<Rightarrow>
              l\<lparr> calc := s',
                 awaiting := take i (awaiting l) @ drop (Suc i) (awaiting l),
                 returned := returned l @ [d] \<rparr>))
      else l)"

definition run :: "action list \<Rightarrow> loop \<Rightarrow> loop" where
  "run as l = foldl perform l as"

definition in_flight :: "string \<Rightarrow> loop \<Rightarrow> nat" where
  "in_flight newsId l = length (filter (\<lambda>c. fst c = newsId) (awaiting l))"

definition idle :: "calculator \<Rightarrow> loop" where
  "idle s = \<lparr> calc = s, awaiting = [], returned = [] \<rparr>"


section \<open>Reachable states\<close>

text \<open>The states a calculator can be in: built by the constructor, changed by its methods.\<close>

inductive reachable :: "calculator \<Rightarrow> bool" where
  r_new: "reachable (constructor options)"
| r_update: "reachable s \<Longrightarrow> reachable (updateVoteData newsId data s)"
| r_calc: "reachable s \<Longrightarrow> reachable (calculateScore s)"
| r_threshold: "reachable s \<Longrightarrow> reachable (setThreshold t s)"
| r_minVotes: "reachable s \<Longrightarrow> reachable (setMinVotes m s)"
| r_recalc: "reachable s \<Longrightarrow> reachable (snd (recalculateScore newsId u1 u2 s))"
| r_destroy: "reachable s \<Longrightarrow> reachable (destroy s)"


section \<open>The confidence formula as specified\<close>






section \<open>Invariants of the reachable states\<close>

text \<open>
  \<open>zero_sum\<close>: a stored \<open>validVotes\<close> of zero comes with a zero sum of the two vote
  counters. \<open>current\<close>: the stored score and confidence are the ones a recomputation
  would give.
\<close>

definition zero_sum :: "calculator \<Rightarrow> bool" where
  "zero_sum s =
     (validVotes (voteData s) \<noteq> Num 0 \<or>
      js_add (fakeVotes (voteData s)) (nonFakeVotes (voteData s)) = Num 0)"

definition current :: "calculator \<Rightarrow> bool" where
  "current s =
     (fakeScore (scoreData s) = fakeScore (scoreData (calculateScore s)) \<and>
      confidence (scoreData s) = confidence (scoreData (calculateScore s)))"


section \<open>What one recomputation does\<close>

lemma scoreData_calculateScore:
  "scoreData (calculateScore s) =
     \<lparr> fakeScore =
         (if js_gt (validVotes (voteData s)) (Num 0)
          then js_div (fakeVotes (voteData s)) (validVotes (voteData s)) else Num 0),
       confidence = calculateConfidence s (fakeVotes (voteData s)) (nonFakeVotes (voteData s)),
       status =
         (if js_lt (validVotes (voteData s)) (minVotes s) then ''insufficient''
          else if js_ge
                (if js_gt (validVotes (voteData s)) (Num 0)
                 then js_div (fakeVotes (voteData s)) (validVotes (voteData s)) else Num 0)
                (threshold s) then ''fake''
          else ''non-fake'') \<rparr>"
  by (simp add: calculateScore_def Let_def)

lemma voteData_calculateScore [simp]: "voteData (calculateScore s) = voteData s"
  by (simp add: calculateScore_def Let_def)

lemma minVotes_calculateScore [simp]: "minVotes (calculateScore s) = minVotes s"
  by (simp add: calculateScore_def Let_def)

lemma threshold_calculateScore [simp]: "threshold (calculateScore s) = threshold s"
  by (simp add: calculateScore_def Let_def)

lemma events_calculateScore:
  "events (calculateScore s) =
     events s @ ScoreUpdate (scoreData (calculateScore s)) #
       (if status (scoreData (calculateScore s)) \<noteq> status (scoreData s)
        then [StatusChange (status (scoreData (calculateScore s))) (status (scoreData s))]
        else [])"
  by (simp add: calculateScore_def Let_def)

lemma calculateConfidence_cong:
  "minVotes s = minVotes s' \<Longrightarrow> calculateConfidence s f n = calculateConfidence s' f n"
  by (simp add: calculateConfidence_def Let_def)

lemma voteData_updateVoteData:
  "voteData (updateVoteData newsId data s) =
     \<lparr> fakeVotes = js_or (data ''fakeVotes'') (Num 0),
       nonFakeVotes = js_or (data ''nonFakeVotes'') (Num 0),
       totalVotes = js_or (data ''totalVotes'') (Num 0),
       invalidVotes = js_or (data ''invalidVotes'') (Num 0),
       validVotes = js_or (data ''validVotes'')
         (js_add (js_or (data ''fakeVotes'') (Num 0)) (js_or (data ''nonFakeVotes'') (Num 0))) \<rparr>"
  by (simp add: updateVoteData_def)

lemma setThreshold_cases:
  "setThreshold t s = s \<or> setThreshold t s = calculateScore (s\<lparr>threshold := t\<rparr>)"
  by (simp add: setThreshold_def)

lemma setMinVotes_cases:
  "setMinVotes m s = s \<or> setMinVotes m s = calculateScore (s\<lparr>minVotes := m\<rparr>)"
  by (simp add: setMinVotes_def)

lemma calculateConfidence_update [simp]:
  "calculateConfidence (s\<lparr> threshold := t \<rparr>) = calculateConfidence s"
  "calculateConfidence (s\<lparr> currentNewsId := c \<rparr>) = calculateConfidence s"
  "calculateConfidence (s\<lparr> voteData := vd \<rparr>) = calculateConfidence s"
  "calculateConfidence (s\<lparr> scoreData := sd \<rparr>) = calculateConfidence s"
  "calculateConfidence (s\<lparr> events := es \<rparr>) = calculateConfidence s"
  "calculateConfidence (calculateScore s) = calculateConfidence s"
  by (simp_all add: calculateConfidence_def fun_eq_iff Let_def)

lemma scoreData_calculateScore_threshold:
  "scoreData (calculateScore (s\<lparr> threshold := t \<rparr>)) =
     \<lparr> fakeScore = fakeScore (scoreData (calculateScore s)),
       confidence = confidence (scoreData (calculateScore s)),
       status =
         (if js_lt (validVotes (voteData s)) (minVotes s) then ''insufficient''
          else if js_ge (fakeScore (scoreData (calculateScore s))) t then ''fake''
          else ''non-fake'') \<rparr>"
  by (simp add: scoreData_calculateScore cong: if_cong)


section \<open>The classifier\<close>

text \<open>
  Claim C1. Every evaluation of \<^verbatim>\<open>calculateScore\<close> assigns the status by three ordered
  rules: \<open>insufficient\<close> if \<open>validVotes < minVotes\<close>; otherwise \<open>fake\<close> if
  \<open>fakeScore \<ge> threshold\<close>, equality included; otherwise \<open>non-fake\<close>. The fake score is
  \<open>fakeVotes / validVotes\<close> when \<open>validVotes > 0\<close> and \<open>0\<close> otherwise. The third
  conjunct says the same on plain rational numbers. With 6 fake and 4 non-fake votes and
  threshold 0.6 (the default minimum of 5 votes) the status is \<open>fake\<close>; with a minimum of
  5 votes, 4 fake votes and no non-fake vote it is \<open>insufficient\<close> under every threshold.
\<close>

theorem classifier_three_rules:
  "status (scoreData (calculateScore s)) =
     (if js_lt (validVotes (voteData s)) (minVotes s) then ''insufficient''
      else if js_ge (fakeScore (scoreData (calculateScore s))) (threshold s) then ''fake''
      else ''non-fake'')
   \<and> fakeScore (scoreData (calculateScore s)) =
     (if js_gt (validVotes (voteData s)) (Num 0)
      then js_div (fakeVotes (voteData s)) (validVotes (voteData s)) else Num 0)
   \<and> status (scoreData (calculateScore
        (s\<lparr> threshold := Num t, minVotes := Num m,
            voteData := \<lparr> fakeVotes = Num f, nonFakeVotes = nf, totalVotes = tv,
                          invalidVotes = iv, validVotes = Num v \<rparr> \<rparr>))) =
     (if v < m then ''insufficient''
      else if t \<le> (if 0 < v then f / v else 0) then ''fake''
      else ''non-fake'')
   \<and> status (scoreData (updateVoteData newsId
        [''fakeVotes'' \<mapsto> Num 6, ''nonFakeVotes'' \<mapsto> Num 4]
        (constructor [''threshold'' \<mapsto> Num 0.6]))) = ''fake''
   \<and> status (scoreData (updateVoteData newsId
        [''fakeVotes'' \<mapsto> Num 4, ''nonFakeVotes'' \<mapsto> Num 0]
        (constructor [''minVotes'' \<mapsto> Num 5, ''threshold'' \<mapsto> t']))) = ''insufficient''"
proof -
  have plain: "status (scoreData (calculateScore
        (s\<lparr> threshold := Num t, minVotes := Num m,
            voteData := \<lparr> fakeVotes = Num f, nonFakeVotes = nf, totalVotes = tv,
                          invalidVotes = iv, validVotes = Num v \<rparr> \<rparr>))) =
     (if v < m then ''insufficient''
      else if t \<le> (if 0 < v then f / v else 0) then ''fake''
      else ''non-fake'')"
    by (simp add: scoreData_calculateScore js_gt_def js_ge_def js_le_def)
  have boundary: "status (scoreData (updateVoteData newsId
        [''fakeVotes'' \<mapsto> Num 6, ''nonFakeVotes'' \<mapsto> Num 4]
        (constructor [''threshold'' \<mapsto> Num 0.6]))) = ''fake''"
    by (simp add: updateVoteData_def constructor_def scoreData_calculateScore
        js_gt_def js_ge_def js_le_def)
  have precedence: "status (scoreData (updateVoteData newsId
        [''fakeVotes'' \<mapsto> Num 4, ''nonFakeVotes'' \<mapsto> Num 0]
        (constructor [''minVotes'' \<mapsto> Num 5, ''threshold'' \<mapsto> t']))) = ''insufficient''"
    by (simp add: updateVoteData_def constructor_def scoreData_calculateScore)
  show ?thesis
    using plain boundary precedence by (simp add: scoreData_calculateScore)
qed


section \<open>The confidence\<close>





section \<open>Recomputing twice\<close>

text \<open>
  Claim C3. Recomputing twice with the vote data and the policy unchanged gives the same
  snapshot both times, and the second recomputation calls only \<^verbatim>\<open>onScoreUpdate\<close>: no
  status change is notified. In general one recomputation calls \<^verbatim>\<open>onScoreUpdate\<close> and
  then calls \<^verbatim>\<open>onStatusChange\<close> (with the new and the old status) exactly when the new
  status differs from the previous one.
\<close>

theorem recompute_idempotent:
  "scoreData (calculateScore (calculateScore s)) = scoreData (calculateScore s)
   \<and> events (calculateScore (calculateScore s)) =
       events (calculateScore s) @ [ScoreUpdate (scoreData (calculateScore s))]
   \<and> events (calculateScore s) =
       events s @ ScoreUpdate (scoreData (calculateScore s)) #
         (if status (scoreData (calculateScore s)) \<noteq> status (scoreData s)
          then [StatusChange (status (scoreData (calculateScore s))) (status (scoreData s))]
          else [])"
proof -
  have same: "scoreData (calculateScore (calculateScore s)) = scoreData (calculateScore s)"
    by (simp add: scoreData_calculateScore
        calculateConfidence_cong [of "calculateScore s" s])
  have "events (calculateScore (calculateScore s)) =
       events (calculateScore s) @ [ScoreUpdate (scoreData (calculateScore s))]"
    using events_calculateScore [of "calculateScore s"] by (simp add: same)
  with same show ?thesis
    using events_calculateScore [of s] by simp
qed


section \<open>No valid votes\<close>

lemma js_or_Num0: "js_or x d = Num 0 \<Longrightarrow> d = Num 0"
  by (cases x) (auto split: if_splits)

lemma zero_sum_calculateScore: "zero_sum (calculateScore s) = zero_sum s"
  by (simp add: zero_sum_def)

lemma current_calculateScore: "current (calculateScore s)"
  by (simp add: current_def scoreData_calculateScore
      calculateConfidence_cong [of "calculateScore s" s])

lemma zero_sum_updateVoteData: "zero_sum (updateVoteData newsId data s)"
  unfolding zero_sum_def voteData_updateVoteData
  by (auto dest: js_or_Num0)

lemma reachable_zero_sum: "reachable s \<Longrightarrow> zero_sum s"
proof (induction rule: reachable.induct)
  case (r_new options)
  show ?case by (simp add: zero_sum_def constructor_def)
next
  case (r_update s newsId data)
  show ?case by (rule zero_sum_updateVoteData)
next
  case (r_calc s)
  then show ?case by (simp add: zero_sum_calculateScore)
next
  case (r_threshold s t)
  then show ?case
    using setThreshold_cases [of t s]
    by (auto simp: zero_sum_calculateScore) (simp add: zero_sum_def)
next
  case (r_minVotes s m)
  then show ?case
    using setMinVotes_cases [of m s]
    by (auto simp: zero_sum_calculateScore) (simp add: zero_sum_def)
next
  case (r_recalc s newsId u1 u2)
  show ?case by (simp add: recalculateScore_def Let_def zero_sum_updateVoteData)
next
  case (r_destroy s)
  show ?case by (simp add: zero_sum_def destroy_def)
qed

lemma reachable_current: "reachable s \<Longrightarrow> current s"
proof (induction rule: reachable.induct)
  case (r_new options)
  show ?case
    by (simp add: current_def constructor_def scoreData_calculateScore
        calculateConfidence_def js_gt_def js_strict_eq_def)
next
  case (r_update s newsId data)
  show ?case by (simp add: updateVoteData_def current_calculateScore)
next
  case (r_calc s)
  show ?case by (rule current_calculateScore)
next
  case (r_threshold s t)
  then show ?case
    using setThreshold_cases [of t s] by (auto simp: current_calculateScore)
next
  case (r_minVotes s m)
  then show ?case
    using setMinVotes_cases [of m s] by (auto simp: current_calculateScore)
next
  case (r_recalc s newsId u1 u2)
  show ?case
    by (simp add: recalculateScore_def Let_def updateVoteData_def current_calculateScore)
next
  case (r_destroy s)
  show ?case
    by (simp add: current_def destroy_def scoreData_calculateScore
        calculateConfidence_def js_gt_def js_strict_eq_def)
qed

lemma zero_valid_calculateScore:
  assumes "zero_sum s" and "validVotes (voteData s) = Num 0"
  shows "fakeScore (scoreData (calculateScore s)) = Num 0"
    and "confidence (scoreData (calculateScore s)) = Num 0"
  using assms
  by (simp_all add: zero_sum_def scoreData_calculateScore js_gt_def
      calculateConfidence_def js_strict_eq_def)

text \<open>
  Claim C7. In every state a calculator can reach, if the stored \<open>validVotes\<close> is zero
  then computing the score gives \<open>fakeScore = 0\<close> and \<open>confidence = 0\<close>: the finite number
  zero, neither \<open>NaN\<close> nor an infinity, so no division by zero has taken place. The
  snapshot already stored in such a state has the same two zeros.
\<close>

theorem zero_valid_votes_neutral:
  assumes "reachable s" and "validVotes (voteData s) = Num 0"
  shows "fakeScore (scoreData (calculateScore s)) = Num 0
       \<and> confidence (scoreData (calculateScore s)) = Num 0
       \<and> fakeScore (scoreData s) = Num 0
       \<and> confidence (scoreData s) = Num 0"
proof -
  have z: "zero_sum s" using assms(1) by (rule reachable_zero_sum)
  have c: "current s" using assms(1) by (rule reachable_current)
  show ?thesis
    using zero_valid_calculateScore [OF z assms(2)] c
    by (simp add: current_def)
qed

theorem zero_valid_votes_neutral_witness:
  "reachable (destroy (updateVoteData ''n1'' [''fakeVotes'' \<mapsto> Num 3] (constructor Map.empty)))
   \<and> validVotes (voteData
       (destroy (updateVoteData ''n1'' [''fakeVotes'' \<mapsto> Num 3] (constructor Map.empty)))) = Num 0
   \<and> fakeScore (scoreData (calculateScore
       (destroy (updateVoteData ''n1'' [''fakeVotes'' \<mapsto> Num 3] (constructor Map.empty))))) = Num 0
   \<and> confidence (scoreData (calculateScore
       (destroy (updateVoteData ''n1'' [''fakeVotes'' \<mapsto> Num 3] (constructor Map.empty))))) = Num 0"
proof -
  have r: "reachable
      (destroy (updateVoteData ''n1'' [''fakeVotes'' \<mapsto> Num 3] (constructor Map.empty)))"
    by (intro r_destroy r_update r_new)
  have v: "validVotes (voteData
      (destroy (updateVoteData ''n1'' [''fakeVotes'' \<mapsto> Num 3] (constructor Map.empty)))) = Num 0"
    by (simp add: destroy_def)
  show ?thesis
    using r v zero_valid_votes_neutral [OF r v] by simp
qed


section \<open>Storing vote data\<close>

text \<open>
  Claim C4, as the specification states it: after every operation that stores a tally the
  stored \<open>validVotes\<close> is \<open>fakeVotes + nonFakeVotes\<close> and the stored \<open>totalVotes\<close> is
  \<open>validVotes + invalidVotes\<close>, both recomputed and never taken over from the input. It
  fails: \<^verbatim>\<open>updateVoteData\<close> keeps a \<^verbatim>\<open>validVotes\<close> that the input supplies and
  never computes \<^verbatim>\<open>totalVotes\<close>. With the input
  \<open>{fakeVotes: 1, nonFakeVotes: 1, validVotes: 7}\<close> the stored \<open>validVotes\<close> is 7, not 2,
  and the stored \<open>totalVotes\<close> is 0, not 7.
\<close>

theorem derived_fields_counterexample:
  "validVotes (voteData (updateVoteData ''n1''
       [''fakeVotes'' \<mapsto> Num 1, ''nonFakeVotes'' \<mapsto> Num 1, ''validVotes'' \<mapsto> Num 7]
       (constructor Map.empty))) \<noteq>
   js_add
     (fakeVotes (voteData (updateVoteData ''n1''
       [''fakeVotes'' \<mapsto> Num 1, ''nonFakeVotes'' \<mapsto> Num 1, ''validVotes'' \<mapsto> Num 7]
       (constructor Map.empty))))
     (nonFakeVotes (voteData (updateVoteData ''n1''
       [''fakeVotes'' \<mapsto> Num 1, ''nonFakeVotes'' \<mapsto> Num 1, ''validVotes'' \<mapsto> Num 7]
       (constructor Map.empty))))
   \<and> totalVotes (voteData (updateVoteData ''n1''
       [''fakeVotes'' \<mapsto> Num 1, ''nonFakeVotes'' \<mapsto> Num 1, ''validVotes'' \<mapsto> Num 7]
       (constructor Map.empty))) \<noteq>
   js_add
     (validVotes (voteData (updateVoteData ''n1''
       [''fakeVotes'' \<mapsto> Num 1, ''nonFakeVotes'' \<mapsto> Num 1, ''validVotes'' \<mapsto> Num 7]
       (constructor Map.empty))))
     (invalidVotes (voteData (updateVoteData ''n1''
       [''fakeVotes'' \<mapsto> Num 1, ''nonFakeVotes'' \<mapsto> Num 1, ''validVotes'' \<mapsto> Num 7]
       (constructor Map.empty))))"
  by (simp add: voteData_updateVoteData)

text \<open>
  Claim C4, amended. \<^verbatim>\<open>updateVoteData\<close> stores \<open>fakeVotes\<close>, \<open>nonFakeVotes\<close>,
  \<open>invalidVotes\<close> and \<open>totalVotes\<close> from the input (\<open>0\<close> when absent or falsy); the stored
  \<open>validVotes\<close> is the input's \<open>validVotes\<close> when that is truthy and
  \<open>fakeVotes + nonFakeVotes\<close> otherwise. So \<open>validVotes = fakeVotes + nonFakeVotes\<close> holds
  after every update whose input carries no \<open>validVotes\<close>, and in particular after every
  recalculation.
\<close>

theorem stored_validVotes:
  "validVotes (voteData (updateVoteData newsId data s)) =
     js_or (data ''validVotes'')
       (js_add (fakeVotes (voteData (updateVoteData newsId data s)))
               (nonFakeVotes (voteData (updateVoteData newsId data s))))
   \<and> fakeVotes (voteData (updateVoteData newsId data s)) = js_or (data ''fakeVotes'') (Num 0)
   \<and> nonFakeVotes (voteData (updateVoteData newsId data s)) = js_or (data ''nonFakeVotes'') (Num 0)
   \<and> invalidVotes (voteData (updateVoteData newsId data s)) = js_or (data ''invalidVotes'') (Num 0)
   \<and> totalVotes (voteData (updateVoteData newsId data s)) = js_or (data ''totalVotes'') (Num 0)
   \<and> (data ''validVotes'' = None \<longrightarrow>
        validVotes (voteData (updateVoteData newsId data s)) =
          js_add (fakeVotes (voteData (updateVoteData newsId data s)))
                 (nonFakeVotes (voteData (updateVoteData newsId data s))))
   \<and> validVotes (voteData (snd (recalculateScore newsId u1 u2 s))) =
        js_add (fakeVotes (voteData (snd (recalculateScore newsId u1 u2 s))))
               (nonFakeVotes (voteData (snd (recalculateScore newsId u1 u2 s))))"
  by (simp add: voteData_updateVoteData recalculateScore_def Let_def mockResult_def)

theorem stored_validVotes_witness:
  "[''fakeVotes'' \<mapsto> Num 6, ''nonFakeVotes'' \<mapsto> Num 4] ''validVotes'' = None
   \<and> validVotes (voteData (updateVoteData ''n1''
        [''fakeVotes'' \<mapsto> Num 6, ''nonFakeVotes'' \<mapsto> Num 4] (constructor Map.empty))) = Num 10"
  using stored_validVotes [of "''n1''" "[''fakeVotes'' \<mapsto> Num 6, ''nonFakeVotes'' \<mapsto> Num 4]"
      "constructor Map.empty"]
  by simp


section \<open>Changing the policy\<close>

text \<open>
  Claim C8. A setter called with a value in range stores it and recomputes at once:
  \<^verbatim>\<open>setThreshold\<close> for \<open>0 \<le> t \<le> 1\<close> and \<^verbatim>\<open>setMinVotes\<close> for \<open>m \<ge> 0\<close> are the
  assignment followed by \<^verbatim>\<open>calculateScore\<close>. On a calculator with threshold 0.6 whose
  snapshot is up to date, has fake score 0.55 and status \<open>non-fake\<close>, \<^verbatim>\<open>setThreshold(0.5)\<close>
  makes the status \<open>fake\<close>, leaves the fake score at 0.55 and calls \<^verbatim>\<open>onScoreUpdate\<close>
  once and then \<^verbatim>\<open>onStatusChange('fake', 'non-fake')\<close> once, and nothing else.
\<close>

theorem policy_update_recomputes:
  "(js_ge t (Num 0) \<and> js_le t (Num 1) \<longrightarrow>
      setThreshold t s = calculateScore (s\<lparr> threshold := t \<rparr>))
   \<and> (js_ge m (Num 0) \<longrightarrow> setMinVotes m s = calculateScore (s\<lparr> minVotes := m \<rparr>))
   \<and> (threshold s = Num 0.6 \<and> scoreData s = scoreData (calculateScore s)
        \<and> fakeScore (scoreData s) = Num 0.55 \<and> status (scoreData s) = ''non-fake'' \<longrightarrow>
        status (scoreData (setThreshold (Num 0.5) s)) = ''fake''
        \<and> fakeScore (scoreData (setThreshold (Num 0.5) s)) = Num 0.55
        \<and> events (setThreshold (Num 0.5) s) =
            events s @ [ScoreUpdate (scoreData (setThreshold (Num 0.5) s)),
                        StatusChange ''fake'' ''non-fake''])"
proof -
  have scenario:
    "status (scoreData (setThreshold (Num 0.5) s)) = ''fake''
        \<and> fakeScore (scoreData (setThreshold (Num 0.5) s)) = Num 0.55
        \<and> events (setThreshold (Num 0.5) s) =
            events s @ [ScoreUpdate (scoreData (setThreshold (Num 0.5) s)),
                        StatusChange ''fake'' ''non-fake'']"
    if cur: "scoreData s = scoreData (calculateScore s)"
      and fs: "fakeScore (scoreData s) = Num 0.55"
      and st: "status (scoreData s) = ''non-fake''"
  proof -
    let ?s' = "s\<lparr> threshold := Num 0.5 \<rparr>"
    have recomputed: "setThreshold (Num 0.5) s = calculateScore ?s'"
      by (simp add: setThreshold_def js_ge_def js_le_def)
    have enough: "\<not> js_lt (validVotes (voteData s)) (minVotes s)"
      using st cur by (auto simp: scoreData_calculateScore split: if_splits)
    have score: "fakeScore (scoreData (calculateScore s)) = Num 0.55"
      using fs cur by simp
    have new: "status (scoreData (calculateScore ?s')) = ''fake''"
      "fakeScore (scoreData (calculateScore ?s')) = Num 0.55"
      by (simp_all add: scoreData_calculateScore_threshold enough score js_ge_def js_le_def)
    have "events (calculateScore ?s') =
       events s @ [ScoreUpdate (scoreData (calculateScore ?s')), StatusChange ''fake'' ''non-fake'']"
      using events_calculateScore [of ?s'] new st by simp
    with new show ?thesis unfolding recomputed by simp
  qed
  have a: "js_ge t (Num 0) \<and> js_le t (Num 1) \<longrightarrow>
      setThreshold t s = calculateScore (s\<lparr> threshold := t \<rparr>)"
    by (simp add: setThreshold_def)
  have b: "js_ge m (Num 0) \<longrightarrow> setMinVotes m s = calculateScore (s\<lparr> minVotes := m \<rparr>)"
    by (simp add: setMinVotes_def)
  show ?thesis
    using a b scenario by blast
qed

theorem policy_update_recomputes_witness:
  "js_ge (Num 0.5) (Num 0) \<and> js_le (Num 0.5) (Num 1) \<and> js_ge (Num 3) (Num 0)
   \<and> status (scoreData (updateVoteData ''n1''
        [''fakeVotes'' \<mapsto> Num 11, ''nonFakeVotes'' \<mapsto> Num 9]
        (constructor [''threshold'' \<mapsto> Num 0.6]))) = ''non-fake''
   \<and> fakeScore (scoreData (updateVoteData ''n1''
        [''fakeVotes'' \<mapsto> Num 11, ''nonFakeVotes'' \<mapsto> Num 9]
        (constructor [''threshold'' \<mapsto> Num 0.6]))) = Num 0.55
   \<and> status (scoreData (setThreshold (Num 0.5) (updateVoteData ''n1''
        [''fakeVotes'' \<mapsto> Num 11, ''nonFakeVotes'' \<mapsto> Num 9]
        (constructor [''threshold'' \<mapsto> Num 0.6])))) = ''fake''
   \<and> drop 2 (events (setThreshold (Num 0.5) (updateVoteData ''n1''
        [''fakeVotes'' \<mapsto> Num 11, ''nonFakeVotes'' \<mapsto> Num 9]
        (constructor [''threshold'' \<mapsto> Num 0.6])))) =
       [ScoreUpdate \<lparr> fakeScore = Num 0.55, confidence = Num 0.08, status = ''fake'' \<rparr>,
        StatusChange ''fake'' ''non-fake'']"
proof -
  let ?s = "updateVoteData ''n1'' [''fakeVotes'' \<mapsto> Num 11, ''nonFakeVotes'' \<mapsto> Num 9]
        (constructor [''threshold'' \<mapsto> Num 0.6])"
  have sd: "scoreData ?s = \<lparr> fakeScore = Num 0.55, confidence = Num 0.08, status = ''non-fake'' \<rparr>"
    by (simp add: updateVoteData_def constructor_def scoreData_calculateScore
        calculateConfidence_def js_gt_def js_ge_def js_le_def js_strict_eq_def js_sub_def
        Math_min_def floor_eq_iff)
  have th: "threshold ?s = Num 0.6"
    by (simp add: updateVoteData_def constructor_def)
  have cur: "scoreData ?s = scoreData (calculateScore ?s)"
    by (simp add: updateVoteData_def scoreData_calculateScore)
  have ev: "length (events ?s) = 2"
    by (simp add: updateVoteData_def constructor_def events_calculateScore
        scoreData_calculateScore js_gt_def js_ge_def js_le_def)
  have r1: "js_ge (Num 0.5) (Num 0) \<and> js_le (Num 0.5) (Num 1) \<and> js_ge (Num 3) (Num 0)"
    by (simp add: js_ge_def js_le_def)
  have hyp: "threshold ?s = Num 0.6 \<and> scoreData ?s = scoreData (calculateScore ?s)
        \<and> fakeScore (scoreData ?s) = Num 0.55 \<and> status (scoreData ?s) = ''non-fake''"
    using th cur sd by simp
  have after: "setThreshold (Num 0.5) ?s = calculateScore (?s\<lparr> threshold := Num 0.5 \<rparr>)"
    using r1 policy_update_recomputes [of "Num 0.5" ?s "Num 3"] by blast
  have conf: "confidence (scoreData (calculateScore (?s\<lparr> threshold := Num 0.5 \<rparr>))) = Num 0.08"
    using sd [unfolded cur]
    by (simp add: scoreData_calculateScore_threshold)
  show ?thesis
    using r1 hyp ev sd conf after policy_update_recomputes [of "Num 0.5" ?s "Num 3"]
    by simp
qed


text \<open>
  Claim C9. \<^verbatim>\<open>setThreshold\<close> with a value below 0, above 1 or \<open>NaN\<close>, and
  \<^verbatim>\<open>setMinVotes\<close> with a negative value or \<open>NaN\<close>, leave the whole calculator as it
  was: threshold, minimum, vote data, score data, and no callback is called.
\<close>

theorem invalid_policy_rejected:
  "(js_lt t (Num 0) \<or> js_gt t (Num 1) \<or> t = NaN \<longrightarrow> setThreshold t s = s)
   \<and> (js_lt m (Num 0) \<or> m = NaN \<longrightarrow> setMinVotes m s = s)"
  by (auto simp: setThreshold_def setMinVotes_def js_ge_def js_le_def js_gt_def)

theorem invalid_policy_rejected_witness:
  "js_gt (Num 1.5) (Num 1) \<and> js_lt (Num (- 1)) (Num 0)
   \<and> setThreshold (Num 1.5) (constructor Map.empty) = constructor Map.empty
   \<and> setMinVotes (Num (- 1)) (constructor Map.empty) = constructor Map.empty"
proof -
  have h: "js_gt (Num 1.5) (Num 1)" "js_lt (Num (- 1)) (Num 0)"
    by (simp_all add: js_gt_def)
  show ?thesis
    using h invalid_policy_rejected [of "Num 1.5" "constructor Map.empty" "Num (- 1)"]
    by blast
qed


section \<open>The constructor\<close>




section \<open>Overlapping recalculations\<close>

lemma js_or_Some0: "x \<noteq> NaN \<Longrightarrow> js_or (Some x) (Num 0) = x"
  by (cases x) auto

lemma js_add_Num_NaN: "x \<noteq> NaN \<Longrightarrow> js_add x (Num k) \<noteq> NaN"
  by (cases x) auto

lemma recalculateScore_counters:
  assumes "fakeVotes (voteData s) \<noteq> NaN" "nonFakeVotes (voteData s) \<noteq> NaN"
    "invalidVotes (voteData s) \<noteq> NaN"
  shows
    "fst (recalculateScore newsId u1 u2 s) ''fakeVotes'' =
       Some (fakeVotes (voteData (snd (recalculateScore newsId u1 u2 s))))"
    "fst (recalculateScore newsId u1 u2 s) ''nonFakeVotes'' =
       Some (nonFakeVotes (voteData (snd (recalculateScore newsId u1 u2 s))))"
    "fst (recalculateScore newsId u1 u2 s) ''invalidVotes'' =
       Some (invalidVotes (voteData (snd (recalculateScore newsId u1 u2 s))))"
    "fakeVotes (voteData (snd (recalculateScore newsId u1 u2 s))) \<noteq> NaN"
    "nonFakeVotes (voteData (snd (recalculateScore newsId u1 u2 s))) \<noteq> NaN"
    "invalidVotes (voteData (snd (recalculateScore newsId u1 u2 s))) \<noteq> NaN"
proof -
  define f where "f = js_add (fakeVotes (voteData s)) (Math_floor (js_mul (Num u1) (Num 3)))"
  define n where "n = js_add (nonFakeVotes (voteData s)) (Math_floor (js_mul (Num u2) (Num 2)))"
  define v where "v = invalidVotes (voteData s)"
  have ok: "f \<noteq> NaN" "n \<noteq> NaN" "v \<noteq> NaN"
    using assms by (simp_all add: f_def n_def v_def js_add_Num_NaN)
  have m: "mockResult u1 u2 s =
      [''fakeVotes'' \<mapsto> f, ''nonFakeVotes'' \<mapsto> n, ''invalidVotes'' \<mapsto> v]"
    by (simp add: mockResult_def f_def n_def v_def)
  have vd: "voteData (snd (recalculateScore newsId u1 u2 s)) =
      \<lparr> fakeVotes = f, nonFakeVotes = n, totalVotes = Num 0, invalidVotes = v,
        validVotes = js_add f n \<rparr>"
    unfolding recalculateScore_def Let_def m snd_conv voteData_updateVoteData
    using ok by (simp add: js_or_Some0 del: js_or.simps(2))
  have d: "fst (recalculateScore newsId u1 u2 s) =
      [''fakeVotes'' \<mapsto> f, ''nonFakeVotes'' \<mapsto> n, ''invalidVotes'' \<mapsto> v]"
    by (simp add: recalculateScore_def Let_def m)
  show "fst (recalculateScore newsId u1 u2 s) ''fakeVotes'' =
       Some (fakeVotes (voteData (snd (recalculateScore newsId u1 u2 s))))"
    "fst (recalculateScore newsId u1 u2 s) ''nonFakeVotes'' =
       Some (nonFakeVotes (voteData (snd (recalculateScore newsId u1 u2 s))))"
    "fst (recalculateScore newsId u1 u2 s) ''invalidVotes'' =
       Some (invalidVotes (voteData (snd (recalculateScore newsId u1 u2 s))))"
    "fakeVotes (voteData (snd (recalculateScore newsId u1 u2 s))) \<noteq> NaN"
    "nonFakeVotes (voteData (snd (recalculateScore newsId u1 u2 s))) \<noteq> NaN"
    "invalidVotes (voteData (snd (recalculateScore newsId u1 u2 s))) \<noteq> NaN"
    unfolding vd d using ok by simp_all
qed

text \<open>
  Claim C6, as the specification states it, rests on at most one recalculation per
  article being in flight at any time. It fails: \<^verbatim>\<open>recalculateScore\<close> keeps no record
  of a call in progress, and after two calls for the article \<open>n1\<close> both are suspended at
  their \<^verbatim>\<open>await\<close>.
\<close>

theorem two_in_flight_counterexample:
  "\<not> in_flight ''n1'' (run [Call ''n1'' 0 0, Call ''n1'' 0 0] (idle (constructor Map.empty))) \<le> 1"
  by (simp add: run_def idle_def in_flight_def)

lemma run_two_calls:
  assumes "i < 2"
  shows "\<exists>a1 a2 b1 b2.
    run [Call newsId u1 u2, Call newsId w1 w2, Settle i, Settle 0] (idle s) =
      \<lparr> calc = snd (recalculateScore newsId b1 b2 (snd (recalculateScore newsId a1 a2 s))),
        awaiting = [],
        returned = [fst (recalculateScore newsId a1 a2 s),
                    fst (recalculateScore newsId b1 b2 (snd (recalculateScore newsId a1 a2 s)))] \<rparr>"
proof -
  from assms have "i = 0 \<or> i = 1" by auto
  then show ?thesis
  proof
    assume "i = 0"
    then have "run [Call newsId u1 u2, Call newsId w1 w2, Settle i, Settle 0] (idle s) =
      \<lparr> calc = snd (recalculateScore newsId w1 w2 (snd (recalculateScore newsId u1 u2 s))),
        awaiting = [],
        returned = [fst (recalculateScore newsId u1 u2 s),
                    fst (recalculateScore newsId w1 w2 (snd (recalculateScore newsId u1 u2 s)))] \<rparr>"
      by (simp add: run_def idle_def split_beta)
    then show ?thesis by blast
  next
    assume "i = 1"
    then have "run [Call newsId u1 u2, Call newsId w1 w2, Settle i, Settle 0] (idle s) =
      \<lparr> calc = snd (recalculateScore newsId u1 u2 (snd (recalculateScore newsId w1 w2 s))),
        awaiting = [],
        returned = [fst (recalculateScore newsId w1 w2 s),
                    fst (recalculateScore newsId u1 u2 (snd (recalculateScore newsId w1 w2 s)))] \<rparr>"
      by (simp add: run_def idle_def split_beta)
    then show ?thesis by blast
  qed
qed

text \<open>
  Claim C6, amended. Two calls of \<^verbatim>\<open>recalculateScore\<close> for one article may be in flight
  together. Whichever of the two finishes first, once both have finished the stored
  \<open>fakeVotes\<close>, \<open>nonFakeVotes\<close> and \<open>invalidVotes\<close> are those of the response returned
  last, all three from that one response and none from the other: each call builds its
  response and replaces the vote data in one step that nothing interrupts. (The counters
  of the starting state are taken not to be \<open>NaN\<close>.)
\<close>

theorem concurrent_recalculations_whole:
  assumes "i < 2"
    and "fakeVotes (voteData s) \<noteq> NaN" and "nonFakeVotes (voteData s) \<noteq> NaN"
    and "invalidVotes (voteData s) \<noteq> NaN"
  shows "in_flight newsId (run [Call newsId u1 u2, Call newsId w1 w2] (idle s)) = 2
    \<and> awaiting (run [Call newsId u1 u2, Call newsId w1 w2, Settle i, Settle 0] (idle s)) = []
    \<and> length (returned (run [Call newsId u1 u2, Call newsId w1 w2, Settle i, Settle 0] (idle s))) = 2
    \<and> last (returned (run [Call newsId u1 u2, Call newsId w1 w2, Settle i, Settle 0] (idle s)))
         ''fakeVotes'' =
       Some (fakeVotes (voteData (calc
         (run [Call newsId u1 u2, Call newsId w1 w2, Settle i, Settle 0] (idle s)))))
    \<and> last (returned (run [Call newsId u1 u2, Call newsId w1 w2, Settle i, Settle 0] (idle s)))
         ''nonFakeVotes'' =
       Some (nonFakeVotes (voteData (calc
         (run [Call newsId u1 u2, Call newsId w1 w2, Settle i, Settle 0] (idle s)))))
    \<and> last (returned (run [Call newsId u1 u2, Call newsId w1 w2, Settle i, Settle 0] (idle s)))
         ''invalidVotes'' =
       Some (invalidVotes (voteData (calc
         (run [Call newsId u1 u2, Call newsId w1 w2, Settle i, Settle 0] (idle s)))))"
proof -
  obtain a1 a2 b1 b2 where r:
    "run [Call newsId u1 u2, Call newsId w1 w2, Settle i, Settle 0] (idle s) =
      \<lparr> calc = snd (recalculateScore newsId b1 b2 (snd (recalculateScore newsId a1 a2 s))),
        awaiting = [],
        returned = [fst (recalculateScore newsId a1 a2 s),
                    fst (recalculateScore newsId b1 b2 (snd (recalculateScore newsId a1 a2 s)))] \<rparr>"
    using run_two_calls [OF assms(1)] by blast
  let ?s1 = "snd (recalculateScore newsId a1 a2 s)"
  have n1: "fakeVotes (voteData ?s1) \<noteq> NaN" "nonFakeVotes (voteData ?s1) \<noteq> NaN"
    "invalidVotes (voteData ?s1) \<noteq> NaN"
    using assms(2-4) by (simp_all add: recalculateScore_counters)
  have both: "in_flight newsId (run [Call newsId u1 u2, Call newsId w1 w2] (idle s)) = 2"
    by (simp add: run_def idle_def in_flight_def)
  show ?thesis
    unfolding r using both recalculateScore_counters(1-3) [OF n1] by simp
qed

theorem concurrent_recalculations_whole_witness:
  "(1::nat) < 2
   \<and> fakeVotes (voteData (constructor Map.empty)) \<noteq> NaN
   \<and> nonFakeVotes (voteData (constructor Map.empty)) \<noteq> NaN
   \<and> invalidVotes (voteData (constructor Map.empty)) \<noteq> NaN
   \<and> last (returned (run [Call ''n1'' 0.9 0.9, Call ''n1'' 0.5 0, Settle 1, Settle 0]
        (idle (constructor Map.empty)))) ''fakeVotes'' = Some (Num 3)
   \<and> last (returned (run [Call ''n1'' 0.9 0.9, Call ''n1'' 0.5 0, Settle 1, Settle 0]
        (idle (constructor Map.empty)))) ''nonFakeVotes'' = Some (Num 1)
   \<and> last (returned (run [Call ''n1'' 0.9 0.9, Call ''n1'' 0.5 0, Settle 1, Settle 0]
        (idle (constructor Map.empty)))) ''invalidVotes'' = Some (Num 0)"
proof -
  have h: "(1::nat) < 2" by simp
  have n: "fakeVotes (voteData (constructor Map.empty)) \<noteq> NaN"
    "nonFakeVotes (voteData (constructor Map.empty)) \<noteq> NaN"
    "invalidVotes (voteData (constructor Map.empty)) \<noteq> NaN"
    by (simp_all add: constructor_def)
  have fl: "\<lfloor>27 / 10 :: rat\<rfloor> = 2" "\<lfloor>9 / 5 :: rat\<rfloor> = 1" "\<lfloor>3 / 2 :: rat\<rfloor> = 1"
    by (simp_all add: floor_eq_iff)
  have vd: "voteData (calc (run [Call ''n1'' 0.9 0.9, Call ''n1'' 0.5 0, Settle 1, Settle 0]
        (idle (constructor Map.empty)))) =
      \<lparr> fakeVotes = Num 3, nonFakeVotes = Num 1, totalVotes = Num 0, invalidVotes = Num 0,
        validVotes = Num 4 \<rparr>"
    by (simp add: run_def idle_def recalculateScore_def mockResult_def Let_def
        voteData_updateVoteData constructor_def fl)
  show ?thesis
    using h n vd
      concurrent_recalculations_whole [OF h n, of "''n1''" "0.9" "0.9" "0.5" 0]
    by simp
qed

end
